theory Spec2Isabelle
  imports Main
begin

section \<open>C strings, buffers and formatted output\<close>

text \<open>
  A byte is a \<^typ>\<open>char\<close>; a buffer is the list of its bytes. A C string is read from a
  buffer (or from a string literal, which may hold an embedded NUL) up to the first NUL.
  Where the source tests a \<^verbatim>\<open>const char*\<close> argument against \<^verbatim>\<open>nullptr\<close>, the argument is a
  \<^typ>\<open>string option\<close> and \<open>None\<close> is \<^verbatim>\<open>nullptr\<close>.
\<close>

definition NUL :: char where
  "NUL = CHR 0x00"

definition c_str :: "string \<Rightarrow> string" where
  "c_str buf = takeWhile (\<lambda>c. c \<noteq> NUL) buf"

definition strlen :: "string \<Rightarrow> nat" where
  "strlen buf = length (c_str buf)"

text \<open>Decimal output of \<^verbatim>\<open>%d\<close>.\<close>

definition digit_char :: "nat \<Rightarrow> char" where
  "digit_char d = ''0123456789'' ! d"

fun dec_digits :: "nat \<Rightarrow> string" where
  "dec_digits n = (if n < 10 then [digit_char n] else dec_digits (n div 10) @ [digit_char (n mod 10)])"

declare dec_digits.simps [simp del]

definition show_int :: "int \<Rightarrow> string" where
  "show_int i = (if i < 0 then CHR ''-'' # dec_digits (nat (- i)) else dec_digits (nat i))"

text \<open>
  The two conversions the sources use, \<^verbatim>\<open>%s\<close> and \<^verbatim>\<open>%d\<close>. Every call site passes
  arguments that match its format; a mismatch (undefined in C) renders nothing here.
\<close>

datatype fmt_arg = ArgS string | ArgD int

fun render :: "char \<Rightarrow> fmt_arg \<Rightarrow> string" where
  "render d (ArgS s) = (if d = CHR ''s'' then c_str s else [])"
| "render d (ArgD i) = (if d = CHR ''d'' then show_int i else [])"

fun format :: "string \<Rightarrow> fmt_arg list \<Rightarrow> string" where
  "format (c # d # cs) (a # as) =
     (if c = CHR ''%'' then render d a @ format cs as else c # format (d # cs) (a # as))"
| "format (c # cs) as = c # format cs as"
| "format [] as = []"

text \<open>
  \<^verbatim>\<open>snprintf(buf, n, fmt, ...)\<close>: the format is itself a C string, so it ends at its
  first NUL; at most \<open>n - 1\<close> bytes are stored, then a NUL. The value is the C string
  left in \<open>buf\<close>.
\<close>

definition snprintf :: "nat \<Rightarrow> string \<Rightarrow> fmt_arg list \<Rightarrow> string" where
  "snprintf n fmt args = take (n - 1) (format (c_str fmt) args)"

text \<open>
  Writing \<open>bytes\<close> into a buffer at an offset, and reading the first \<open>n\<close> bytes of a
  buffer. Leaving the buffer is undefined behaviour in C: the result is \<open>None\<close>.
\<close>

definition write_buf :: "nat \<Rightarrow> string \<Rightarrow> string \<Rightarrow> string option" where
  "write_buf off bytes buf =
     (if off + length bytes \<le> length buf
      then Some (take off buf @ bytes @ drop (off + length bytes) buf)
      else None)"

definition read_buf :: "nat \<Rightarrow> string \<Rightarrow> string option" where
  "read_buf n buf = (if n \<le> length buf then Some (take n buf) else None)"

section \<open>fw\_socket.cpp: the local-socket addresses\<close>

text \<open>
  \<^verbatim>\<open>struct sockaddr_un\<close>: \<^verbatim>\<open>sun_path\<close> holds 108 bytes; \<^verbatim>\<open>g_socket_path\<close> holds 256 and
  is zero-initialised static storage.
\<close>

definition sun_path_size :: nat where
  "sun_path_size = 108"

definition g_socket_path_size :: nat where
  "g_socket_path_size = 256"

definition g_socket_path_init :: string where
  "g_socket_path_init = replicate g_socket_path_size NUL"

text \<open>
  The bytes of the string literal \<^verbatim>\<open>"\0%s"\<close> that \<^verbatim>\<open>create_socket_server\<close> passes to
  \<^verbatim>\<open>snprintf\<close> as its format.
\<close>

definition socket_path_fmt :: string where
  "socket_path_fmt = [NUL, CHR ''%'', CHR ''s'']"

text \<open>
  Line 78 of \<^verbatim>\<open>create_socket_server\<close>: \<^verbatim>\<open>snprintf\<close> into \<^verbatim>\<open>g_socket_path\<close>, the stored C
  string followed by its terminating NUL.
\<close>

definition store_socket_path :: "string \<Rightarrow> string \<Rightarrow> string option" where
  "store_socket_path path socket_name =
     write_buf 0 (snprintf g_socket_path_size socket_path_fmt [ArgS socket_name] @ [NUL]) path"

text \<open>
  Lines 88-95 of \<^verbatim>\<open>create_socket_server\<close>: \<^verbatim>\<open>memset\<close> of the address, \<^verbatim>\<open>memcpy\<close> of
  \<open>strlen(socket_name) + 1\<close> bytes from \<^verbatim>\<open>g_socket_path\<close> into \<^verbatim>\<open>sun_path\<close>. The value is
  the \<open>strlen(socket_name) + 1\<close> bytes of \<^verbatim>\<open>sun_path\<close> that \<open>path_len\<close> hands to \<^verbatim>\<open>bind\<close>.
\<close>

definition bind_sockaddr :: "string \<Rightarrow> string \<Rightarrow> string option" where
  "bind_sockaddr path socket_name =
     (case read_buf (strlen socket_name + 1) path of
        None \<Rightarrow> None
      | Some src \<Rightarrow>
          (case write_buf 0 src (replicate sun_path_size NUL) of
             None \<Rightarrow> None
           | Some sun_path \<Rightarrow> Some (take (strlen socket_name + 1) sun_path)))"

text \<open>Both steps: the new \<^verbatim>\<open>g_socket_path\<close> and the address bound.\<close>

definition server_sockaddr :: "string \<Rightarrow> string \<Rightarrow> (string \<times> string) option" where
  "server_sockaddr path socket_name =
     (case store_socket_path path socket_name of
        None \<Rightarrow> None
      | Some path' \<Rightarrow>
          (case bind_sockaddr path' socket_name of
             None \<Rightarrow> None
           | Some addr \<Rightarrow> Some (path', addr)))"

text \<open>
  Lines 132-140 of \<^verbatim>\<open>connect_socket_server\<close>: \<^verbatim>\<open>memset\<close>, \<^verbatim>\<open>sun_path[0] = '\0'\<close>,
  \<^verbatim>\<open>strcpy(sun_path + 1, socket_name)\<close> (the name and its terminating NUL), and the
  \<open>strlen(socket_name) + 1\<close> bytes that \<open>path_len\<close> hands to \<^verbatim>\<open>connect\<close>.
\<close>

definition client_sockaddr :: "string \<Rightarrow> string option" where
  "client_sockaddr socket_name =
     (case write_buf 0 [NUL] (replicate sun_path_size NUL) of
        None \<Rightarrow> None
      | Some p0 \<Rightarrow>
          (case write_buf 1 (c_str socket_name @ [NUL]) p0 of
             None \<Rightarrow> None
           | Some sun_path \<Rightarrow> Some (take (strlen socket_name + 1) sun_path)))"

section \<open>fw\_socket.cpp: the heartbeat channel\<close>

subsection \<open>State, environment and events\<close>

text \<open>
  The globals of the file. \<^verbatim>\<open>g_connection_lost_callback\<close> is a function pointer: what
  matters here is whether it is \<^verbatim>\<open>nullptr\<close> (\<open>False\<close>) or a registered callback (\<open>True\<close>);
  calling it is the event \<open>EvCallback\<close>. The functions are modelled as they run in one
  thread: no other thread writes the globals while a function runs.
\<close>

record socket_globals =
  g_server_socket :: int
  g_client_socket :: int
  g_socket_path :: string
  g_socket_running :: bool
  g_connection_lost_callback :: bool

definition initial_socket_globals :: socket_globals where
  "initial_socket_globals =
     \<lparr>g_server_socket = - 1, g_client_socket = - 1, g_socket_path = g_socket_path_init,
      g_socket_running = False, g_connection_lost_callback = False\<rparr>"

definition HEARTBEAT_MSG :: string where
  "HEARTBEAT_MSG = ''HB''"

definition HEARTBEAT_ACK :: string where
  "HEARTBEAT_ACK = ''OK''"

datatype sock_event =
    EvSocket
  | EvBind string
  | EvListen int
  | EvConnect string
  | EvAccept int
  | EvSend int string
  | EvClose int
  | EvThreadCreate
  | EvCallback

text \<open>What the system answers to the calls of the server's and the client's set-up.\<close>

record server_env =
  srv_socket_ret :: int
  bind_ret :: int
  listen_ret :: int
  pthread_create_ret :: int

record connect_env =
  cli_socket_ret :: int
  connect_ret :: int

text \<open>
  What one call of \<^verbatim>\<open>receive_with_timeout\<close> observes: the value of \<^verbatim>\<open>select\<close> (0 is the
  timeout) and the value of \<^verbatim>\<open>recv\<close> (0 is the orderly close by the peer).
\<close>

record recv_env =
  select_ret :: int
  recv_ret :: int

subsection \<open>create\_socket\_server, connect\_socket\_server\<close>

text \<open>The outer \<open>None\<close> is undefined behaviour (a name too long for \<^verbatim>\<open>sun_path\<close>).\<close>

definition create_socket_server ::
  "server_env \<Rightarrow> string option \<Rightarrow> socket_globals
     \<Rightarrow> (int \<times> socket_globals \<times> sock_event list) option" where
  "create_socket_server env socket_name g =
     (case socket_name of
        None \<Rightarrow> Some (- 1, g, [])
      | Some name \<Rightarrow>
          if strlen name = 0 then Some (- 1, g, [])
          else
            (case store_socket_path (g_socket_path g) name of
               None \<Rightarrow> None
             | Some path' \<Rightarrow>
                 let fd = srv_socket_ret env;
                     g1 = g\<lparr>g_socket_path := path', g_server_socket := fd\<rparr>
                 in
                   if fd < 0 then Some (- 1, g1, [EvSocket])
                   else
                     (case bind_sockaddr path' name of
                        None \<Rightarrow> None
                      | Some addr \<Rightarrow>
                          if bind_ret env < 0
                          then Some (- 1, g1\<lparr>g_server_socket := - 1\<rparr>,
                                     [EvSocket, EvBind addr, EvClose fd])
                          else if listen_ret env < 0
                          then Some (- 1, g1\<lparr>g_server_socket := - 1\<rparr>,
                                     [EvSocket, EvBind addr, EvListen 5, EvClose fd])
                          else Some (fd, g1, [EvSocket, EvBind addr, EvListen 5]))))"

definition connect_socket_server ::
  "connect_env \<Rightarrow> string option \<Rightarrow> socket_globals
     \<Rightarrow> (int \<times> socket_globals \<times> sock_event list) option" where
  "connect_socket_server env socket_name g =
     (case socket_name of
        None \<Rightarrow> Some (- 1, g, [])
      | Some name \<Rightarrow>
          if strlen name = 0 then Some (- 1, g, [])
          else
            let fd = cli_socket_ret env;
                g1 = g\<lparr>g_client_socket := fd\<rparr>
            in
              if fd < 0 then Some (- 1, g1, [EvSocket])
              else
                (case client_sockaddr name of
                   None \<Rightarrow> None
                 | Some addr \<Rightarrow>
                     if connect_ret env < 0
                     then Some (- 1, g1\<lparr>g_client_socket := - 1\<rparr>,
                                [EvSocket, EvConnect addr, EvClose fd])
                     else Some (fd, g1, [EvSocket, EvConnect addr])))"

subsection \<open>send\_heartbeat, receive\_with\_timeout\<close>

text \<open>\<open>sent\<close> is the value of \<^verbatim>\<open>send\<close>.\<close>

definition send_heartbeat :: "int \<Rightarrow> int \<Rightarrow> bool \<times> sock_event list" where
  "send_heartbeat sent socket_fd =
     (if socket_fd < 0 then (False, [])
      else if sent \<le> 0 then (False, [EvSend socket_fd HEARTBEAT_MSG])
      else (True, [EvSend socket_fd HEARTBEAT_MSG]))"

text \<open>
  Both callers pass a local array as \<^verbatim>\<open>buffer\<close>, so \<^verbatim>\<open>buffer == nullptr\<close> is false. The
  timeout is what \<^verbatim>\<open>select\<close> is given; whether it expired is the environment's answer.
\<close>

definition receive_with_timeout :: "recv_env \<Rightarrow> int \<Rightarrow> int \<Rightarrow> int \<Rightarrow> int" where
  "receive_with_timeout env socket_fd buffer_size timeout_ms =
     (if socket_fd < 0 \<or> buffer_size \<le> 0 then - 1
      else if select_ret env < 0 then - 1
      else if select_ret env = 0 then 0
      else if recv_ret env \<le> 0 then - 1
      else recv_ret env)"

subsection \<open>socket\_server\_thread\<close>

text \<open>
  The receive loop on one peer (lines 246-255), over the list of what its calls of
  \<^verbatim>\<open>receive_with_timeout\<close> observe. \<open>True\<close>: the loop was left; \<open>False\<close>: the list is used
  up and the loop is still waiting on the peer.
\<close>

fun peer_loop :: "socket_globals \<Rightarrow> int \<Rightarrow> recv_env list \<Rightarrow> bool \<times> sock_event list" where
  "peer_loop g client_fd [] = (\<not> g_socket_running g, [])"
| "peer_loop g client_fd (e # es) =
     (if \<not> g_socket_running g then (True, [])
      else
        let received = receive_with_timeout e client_fd 64 5000 in
        if received < 0 then (True, [])
        else if received > 0 then
          (case peer_loop g client_fd es of
             (left, l) \<Rightarrow> (left, EvSend client_fd HEARTBEAT_ACK # l))
        else peer_loop g client_fd es)"

text \<open>
  One iteration of the accept loop observes \<^verbatim>\<open>select\<close> on the listening socket,
  \<^verbatim>\<open>accept\<close>, and what the accepted peer then yields.
\<close>

record accept_env =
  accept_select_ret :: int
  accept_ret :: int
  peer :: "recv_env list"

datatype thread_status = ThreadExited | Accepting | Serving int

fun socket_server_thread ::
  "socket_globals \<Rightarrow> accept_env list \<Rightarrow> thread_status \<times> sock_event list" where
  "socket_server_thread g [] =
     (if g_socket_running g \<and> g_server_socket g \<ge> 0 then (Accepting, [])
      else (ThreadExited, []))"
| "socket_server_thread g (a # rest) =
     (if \<not> (g_socket_running g \<and> g_server_socket g \<ge> 0) then (ThreadExited, [])
      else if accept_select_ret a \<le> 0 then socket_server_thread g rest
      else
        let client_fd = accept_ret a in
        if client_fd < 0 then socket_server_thread g rest
        else
          (case peer_loop g client_fd (peer a) of
             (False, l) \<Rightarrow> (Serving client_fd, EvAccept client_fd # l)
           | (True, l) \<Rightarrow>
               (case socket_server_thread g rest of
                  (st, l') \<Rightarrow> (st, EvAccept client_fd # l @ EvClose client_fd # l'))))"

subsection \<open>start\_socket\_server\_thread, set\_connection\_lost\_callback\<close>

definition start_socket_server_thread ::
  "server_env \<Rightarrow> string option \<Rightarrow> socket_globals
     \<Rightarrow> (bool \<times> socket_globals \<times> sock_event list) option" where
  "start_socket_server_thread env socket_name g =
     (if g_socket_running g then Some (True, g, [])
      else
        (case create_socket_server env socket_name g of
           None \<Rightarrow> None
         | Some (fd, g1, l) \<Rightarrow>
             if fd < 0 then Some (False, g1, l)
             else
               let g2 = g1\<lparr>g_socket_running := True\<rparr> in
               if pthread_create_ret env \<noteq> 0
               then Some (False, g2\<lparr>g_socket_running := False, g_server_socket := - 1\<rparr>,
                          l @ [EvThreadCreate, EvClose (g_server_socket g2)])
               else Some (True, g2, l @ [EvThreadCreate])))"

definition set_connection_lost_callback :: "bool \<Rightarrow> socket_globals \<Rightarrow> socket_globals" where
  "set_connection_lost_callback callback g = g\<lparr>g_connection_lost_callback := callback\<rparr>"

subsection \<open>start\_heartbeat\_client\<close>

text \<open>One iteration of the client's loop observes the value of \<^verbatim>\<open>send\<close> and a receive.\<close>

record hb_env =
  send_ret :: int
  hb_recv :: recv_env

definition lost_callback :: "socket_globals \<Rightarrow> sock_event list" where
  "lost_callback g = (if g_connection_lost_callback g then [EvCallback] else [])"

text \<open>
  The loop of lines 338-360. \<open>True\<close>: the loop was left; \<open>False\<close>: the list is used up and
  the loop is still running.
\<close>

fun heartbeat_loop :: "socket_globals \<Rightarrow> int \<Rightarrow> hb_env list \<Rightarrow> bool \<times> sock_event list" where
  "heartbeat_loop g interval_ms [] = (\<not> g_client_socket g \<ge> 0, [])"
| "heartbeat_loop g interval_ms (e # es) =
     (if \<not> g_client_socket g \<ge> 0 then (True, [])
      else
        (case send_heartbeat (send_ret e) (g_client_socket g) of
           (False, l) \<Rightarrow> (True, l @ lost_callback g)
         | (True, l) \<Rightarrow>
             let received = receive_with_timeout (hb_recv e) (g_client_socket g) 64 interval_ms
             in
               if received < 0 then (True, l @ lost_callback g)
               else
                 (case heartbeat_loop g interval_ms es of
                    (left, l') \<Rightarrow> (left, l @ l'))))"

datatype client_return = Returns bool | StillLooping

definition start_heartbeat_client ::
  "connect_env \<Rightarrow> hb_env list \<Rightarrow> string option \<Rightarrow> int \<Rightarrow> socket_globals
     \<Rightarrow> (client_return \<times> socket_globals \<times> sock_event list) option" where
  "start_heartbeat_client env trace socket_name interval_ms g =
     (case connect_socket_server env socket_name g of
        None \<Rightarrow> None
      | Some (fd, g1, l) \<Rightarrow>
          if fd < 0 then Some (Returns False, g1, l)
          else
            (case heartbeat_loop g1 interval_ms trace of
               (True, l') \<Rightarrow> Some (Returns True, g1, l @ l')
             | (False, l') \<Rightarrow> Some (StillLooping, g1, l @ l')))"

text \<open>
  An iteration of the client's loop fails when the send fails or the receive reports an
  error or a closed connection (\<^verbatim>\<open>receive_with_timeout\<close> is negative).
\<close>

definition hb_iteration_fails :: "socket_globals \<Rightarrow> int \<Rightarrow> hb_env \<Rightarrow> bool" where
  "hb_iteration_fails g interval_ms e =
     (send_ret e \<le> 0
      \<or> receive_with_timeout (hb_recv e) (g_client_socket g) 64 interval_ms < 0)"

text \<open>The acknowledgements the server sends while a peer yields only data and timeouts.\<close>

definition acks :: "int \<Rightarrow> recv_env list \<Rightarrow> sock_event list" where
  "acks client_fd es =
     concat (map (\<lambda>e. if receive_with_timeout e client_fd 64 5000 > 0
                      then [EvSend client_fd HEARTBEAT_ACK] else []) es)"

section \<open>fw\_daemon.cpp: the watchdog\<close>

subsection \<open>State and environment\<close>

text \<open>
  \<^verbatim>\<open>struct DaemonConfig\<close> and the two globals of the file. The character arrays hold C
  strings. \<^verbatim>\<open>g_config\<close> is zero-initialised static storage.
\<close>

record DaemonConfig =
  package_name :: string
  service_name :: string
  check_interval_ms :: int
  parent_pid :: int
  use_am_command :: bool
  use_socket :: bool
  socket_path :: string

record daemon_globals =
  g_config :: DaemonConfig
  g_daemon_running :: bool

definition initial_globals :: daemon_globals where
  "initial_globals =
     \<lparr>g_config = \<lparr>package_name = [], service_name = [], check_interval_ms = 0,
        parent_pid = 0, use_am_command = False, use_socket = False, socket_path = []\<rparr>,
      g_daemon_running = False\<rparr>"

text \<open>
  What the operating system answers during one poll cycle: \<^verbatim>\<open>stat\<close> on a path (its
  return value and whether the mode is a directory), \<^verbatim>\<open>kill(pid, sig)\<close> and
  \<^verbatim>\<open>system(cmd)\<close>. The calls a function makes are returned as a list, in order.
  Delays (\<^verbatim>\<open>usleep\<close>, \<^verbatim>\<open>sleep\<close>), logging and \<^verbatim>\<open>signal(SIGPIPE, SIG_IGN)\<close> change no
  value computed here and are left out.
\<close>

record os_env =
  stat_ret :: "string \<Rightarrow> int"
  stat_isdir :: "string \<Rightarrow> bool"
  kill_ret :: "int \<Rightarrow> int \<Rightarrow> int"
  system_ret :: "string \<Rightarrow> int"

datatype daemon_call =
    Stat string
  | Kill int int
  | System string
  | Getpid
  | Fork
  | Setsid
  | CloseFd int
  | OpenDevNull
  | Dup2 int int

subsection \<open>is\_process\_alive\<close>

definition proc_path :: "int \<Rightarrow> string" where
  "proc_path pid = snprintf 64 ''/proc/%d'' [ArgD pid]"

definition is_process_alive :: "os_env \<Rightarrow> int \<Rightarrow> bool \<times> daemon_call list" where
  "is_process_alive os pid =
     (if pid \<le> 0 then (False, [])
      else if stat_ret os (proc_path pid) = 0 \<and> stat_isdir os (proc_path pid)
        then (True, [Stat (proc_path pid)])
      else if kill_ret os pid 0 = 0
        then (True, [Stat (proc_path pid), Kill pid 0])
      else (False, [Stat (proc_path pid), Kill pid 0]))"

subsection \<open>The reactivation strategies\<close>

definition startservice_cmd :: "string \<Rightarrow> string \<Rightarrow> string" where
  "startservice_cmd pkg svc =
     snprintf 1024 ''am startservice --user 0 -n %s/%s --es start_reason native_daemon 2>&1''
       [ArgS pkg, ArgS svc]"

definition start_foreground_cmd :: "string \<Rightarrow> string \<Rightarrow> string" where
  "start_foreground_cmd pkg svc =
     snprintf 1024
       ''am start-foreground-service --user 0 -n %s/%s --es start_reason native_daemon 2>&1''
       [ArgS pkg, ArgS svc]"

definition broadcast_cmd :: "string \<Rightarrow> string" where
  "broadcast_cmd pkg =
     snprintf 512 ''am broadcast --user 0 -a %s.NATIVE_WAKEUP -p %s 2>&1'' [ArgS pkg, ArgS pkg]"

definition start_service_via_am :: "os_env \<Rightarrow> string \<Rightarrow> string \<Rightarrow> bool \<times> daemon_call list" where
  "start_service_via_am os pkg svc =
     (let cmd = startservice_cmd pkg svc; ret = system_ret os cmd in
      if ret = 0 then (True, [System cmd])
      else
        let cmd2 = start_foreground_cmd pkg svc; ret2 = system_ret os cmd2 in
        if ret2 = 0 then (True, [System cmd, System cmd2])
        else (False, [System cmd, System cmd2]))"

definition start_via_broadcast :: "os_env \<Rightarrow> string \<Rightarrow> bool \<times> daemon_call list" where
  "start_via_broadcast os pkg =
     (let cmd = broadcast_cmd pkg; ret = system_ret os cmd in
      if ret = 0 then (True, [System cmd]) else (False, [System cmd]))"

text \<open>
  Lines 187-201 of \<^verbatim>\<open>daemon_main_loop\<close>: one reactivation round, with the local
  \<^verbatim>\<open>success\<close> threaded through the two \<^verbatim>\<open>if\<close> statements.
\<close>

definition reactivation_round :: "DaemonConfig \<Rightarrow> os_env \<Rightarrow> bool \<times> daemon_call list" where
  "reactivation_round cfg os =
     (let (success1, l1) =
            (if use_am_command cfg
             then (case start_service_via_am os (package_name cfg) (service_name cfg) of
                     (ok, l) \<Rightarrow> (if ok then True else False, l))
             else (False, []));
          (success2, l2) =
            (if \<not> success1
             then (case start_via_broadcast os (package_name cfg) of
                     (ok, l) \<Rightarrow> (if ok then True else success1, l))
             else (success1, []))
      in (success2, l1 @ l2))"

subsection \<open>daemon\_main\_loop\<close>

definition max_consecutive_failures :: int where
  "max_consecutive_failures = 3"

datatype cycle_next = Continue | Break

text \<open>
  The body of one iteration of the \<^verbatim>\<open>while\<close> loop (lines 183-224), from the value of
  \<^verbatim>\<open>consecutive_failures\<close> before it to the value after it.
\<close>

definition daemon_cycle :: "DaemonConfig \<Rightarrow> int \<Rightarrow> os_env \<Rightarrow> cycle_next \<times> int \<times> daemon_call list" where
  "daemon_cycle cfg consecutive os =
     (case is_process_alive os (parent_pid cfg) of
        (alive, l0) \<Rightarrow>
          if \<not> alive then
            (case reactivation_round cfg os of
               (success, l1) \<Rightarrow>
                 if success then (Continue, 0, l0 @ l1)
                 else
                   let failures = consecutive + 1 in
                   if failures \<ge> max_consecutive_failures then (Break, failures, l0 @ l1)
                   else (Continue, failures, l0 @ l1))
          else (Continue, 0, l0))"

text \<open>
  The loop runs over the list of environments of its poll cycles. It reads
  \<^verbatim>\<open>g_daemon_running\<close> at the head of every iteration and never writes it. When the list
  is used up and the loop has not left, the status is \<open>InLoop\<close>. The loop runs in the
  forked child, whose only thread is the loop itself, so the globals it reads are those
  it was entered with.
\<close>

datatype exit_reason = FlagCleared | GaveUp

datatype loop_status = InLoop | Finished exit_reason

record loop_result =
  status :: loop_status
  consecutive_failures :: int
  cycles :: nat
  calls :: "daemon_call list"

fun daemon_loop :: "daemon_globals \<Rightarrow> int \<Rightarrow> os_env list \<Rightarrow> loop_result" where
  "daemon_loop g consecutive [] =
     \<lparr>status = (if g_daemon_running g then InLoop else Finished FlagCleared),
      consecutive_failures = consecutive, cycles = 0, calls = []\<rparr>"
| "daemon_loop g consecutive (os # rest) =
     (if \<not> g_daemon_running g
      then \<lparr>status = Finished FlagCleared, consecutive_failures = consecutive,
            cycles = 0, calls = []\<rparr>
      else
        (case daemon_cycle (g_config g) consecutive os of
           (Break, failures, l) \<Rightarrow>
             \<lparr>status = Finished GaveUp, consecutive_failures = failures, cycles = 1, calls = l\<rparr>
         | (Continue, failures, l) \<Rightarrow>
             (let r = daemon_loop g failures rest
              in r\<lparr>cycles := Suc (cycles r), calls := l @ calls r\<rparr>)))"

definition daemon_main_loop :: "daemon_globals \<Rightarrow> os_env list \<Rightarrow> loop_result" where
  "daemon_main_loop g trace = daemon_loop g 0 trace"

subsection \<open>start\_daemon, stop\_daemon, is\_daemon\_running\<close>

text \<open>
  \<^verbatim>\<open>strncpy(dst, src, sizeof(dst) - 1)\<close> into a zero-initialised array: the first
  \<open>n - 1\<close> bytes of the C string, the last byte of the array staying NUL.
\<close>

definition strncpy_field :: "nat \<Rightarrow> string \<Rightarrow> string" where
  "strncpy_field n src = take (n - 1) (c_str src)"

text \<open>
  What the system answers to one call of \<^verbatim>\<open>start_daemon\<close>. \<^verbatim>\<open>fork\<close> returns twice: the
  continuation in the calling process sees a negative value (failure) or the child's pid,
  the continuation in the child sees 0 and has its own copy of the globals. Both are this
  one function, at the two values of \<open>fork_ret\<close>. \<open>child_trace\<close> is what the child's loop
  will observe.
\<close>

record fork_env =
  getpid_ret :: int
  fork_ret :: int
  open_ret :: int
  child_trace :: "os_env list"

datatype start_outcome = Returned int | ChildExited exit_reason | ChildInLoop

definition save_config :: "string \<Rightarrow> string \<Rightarrow> int \<Rightarrow> int \<Rightarrow> DaemonConfig \<Rightarrow> DaemonConfig" where
  "save_config pkg svc interval pid cfg =
     cfg\<lparr>package_name := strncpy_field 256 pkg,
         service_name := strncpy_field 512 svc,
         check_interval_ms := (if interval > 0 then interval else 3000),
         parent_pid := pid,
         use_am_command := True,
         use_socket := False\<rparr>"

definition child_detach :: "int \<Rightarrow> daemon_call list" where
  "child_detach fd =
     [Setsid, CloseFd 0, CloseFd 1, CloseFd 2, OpenDevNull] @
     (if fd \<ge> 0
      then [Dup2 fd 0, Dup2 fd 1, Dup2 fd 2] @ (if fd > 2 then [CloseFd fd] else [])
      else [])"

definition start_daemon ::
  "string \<Rightarrow> string \<Rightarrow> int \<Rightarrow> fork_env \<Rightarrow> daemon_globals
     \<Rightarrow> start_outcome \<times> daemon_globals \<times> daemon_call list" where
  "start_daemon pkg svc interval env g =
     (if g_daemon_running g then (Returned 0, g, [])
      else
        let g1 = g\<lparr>g_config := save_config pkg svc interval (getpid_ret env) (g_config g)\<rparr>;
            pid = fork_ret env
        in
          if pid < 0 then (Returned (- 1), g1, [Getpid, Fork])
          else if pid = 0 then
            (let g2 = g1\<lparr>g_daemon_running := True\<rparr>;
                 r = daemon_main_loop g2 (child_trace env)
             in ((case status r of InLoop \<Rightarrow> ChildInLoop | Finished why \<Rightarrow> ChildExited why),
                 g2,
                 [Getpid, Fork] @ child_detach (open_ret env) @ calls r))
          else (Returned 0, g1, [Getpid, Fork]))"

definition stop_daemon :: "daemon_globals \<Rightarrow> daemon_globals" where
  "stop_daemon g = g\<lparr>g_daemon_running := False\<rparr>"

definition is_daemon_running :: "daemon_globals \<Rightarrow> bool" where
  "is_daemon_running g = g_daemon_running g"

subsection \<open>Notions used to state the properties of the watchdog\<close>

text \<open>
  A poll cycle confirms liveness when the prober answers true for the monitored pid; it
  is a failed reactivation cycle when the prober answers false and the reactivation round
  reports failure.
\<close>

definition cycle_alive :: "DaemonConfig \<Rightarrow> os_env \<Rightarrow> bool" where
  "cycle_alive cfg os = fst (is_process_alive os (parent_pid cfg))"

definition cycle_fails :: "DaemonConfig \<Rightarrow> os_env \<Rightarrow> bool" where
  "cycle_fails cfg os =
     (\<not> fst (is_process_alive os (parent_pid cfg)) \<and> \<not> fst (reactivation_round cfg os))"

text \<open>
  The globals a process can hold when it calls the interface: the initial ones, those
  left by a call of \<^verbatim>\<open>start_daemon\<close> that returned, and those left by \<^verbatim>\<open>stop_daemon\<close>.
  The child's continuation of \<^verbatim>\<open>start_daemon\<close> never returns.
\<close>

inductive caller_state :: "daemon_globals \<Rightarrow> bool" where
  initial: "caller_state initial_globals"
| started: "caller_state g \<Longrightarrow> start_daemon pkg svc interval env g = (Returned r, g', l)
     \<Longrightarrow> caller_state g'"
| stopped: "caller_state g \<Longrightarrow> caller_state (stop_daemon g)"

subsection \<open>Example environments\<close>

text \<open>
  Concrete inputs at which the theorems below are instantiated: a cycle in which both
  probes and every command fail, a cycle in which both probes succeed, one in which only
  the signal probe succeeds, the globals of a forked child, and the answers of the system
  to \<^verbatim>\<open>start_daemon\<close> in the calling process and in the child.
\<close>

definition dead_env :: os_env where
  "dead_env =
     \<lparr>stat_ret = \<lambda>p. - 1, stat_isdir = \<lambda>p. False, kill_ret = \<lambda>p s. - 1,
      system_ret = \<lambda>c. 256\<rparr>"

definition alive_env :: os_env where
  "alive_env =
     \<lparr>stat_ret = \<lambda>p. 0, stat_isdir = \<lambda>p. True, kill_ret = \<lambda>p s. 0,
      system_ret = \<lambda>c. 256\<rparr>"

definition kill_only_env :: os_env where
  "kill_only_env =
     \<lparr>stat_ret = \<lambda>p. - 1, stat_isdir = \<lambda>p. False, kill_ret = \<lambda>p s. 0,
      system_ret = \<lambda>c. 256\<rparr>"

definition child_globals :: daemon_globals where
  "child_globals =
     \<lparr>g_config = save_config ''com.app'' ''com.app.KeepService'' 1000 1234
        (g_config initial_globals),
      g_daemon_running = True\<rparr>"

definition parent_env :: "int \<Rightarrow> fork_env" where
  "parent_env child = \<lparr>getpid_ret = 1234, fork_ret = child, open_ret = 3, child_trace = []\<rparr>"


text \<open>
  For the heartbeat channel: a receive that times out, one that yields two bytes, one
  that finds the connection closed by the peer; a running server; an accepted peer;
  iterations of the client's loop; answers to the client's connection attempt; a client
  with a registered callback.
\<close>

definition recv_timeout :: recv_env where
  "recv_timeout = \<lparr>select_ret = 0, recv_ret = 0\<rparr>"

definition recv_data :: recv_env where
  "recv_data = \<lparr>select_ret = 1, recv_ret = 2\<rparr>"

definition recv_closed :: recv_env where
  "recv_closed = \<lparr>select_ret = 1, recv_ret = 0\<rparr>"

definition server_globals :: socket_globals where
  "server_globals = initial_socket_globals\<lparr>g_server_socket := 3, g_socket_running := True\<rparr>"

definition one_peer :: "recv_env list \<Rightarrow> accept_env" where
  "one_peer es = \<lparr>accept_select_ret = 1, accept_ret = 7, peer = es\<rparr>"

definition hb_ok :: hb_env where
  "hb_ok = \<lparr>send_ret = 2, hb_recv = recv_data\<rparr>"

definition hb_timeout :: hb_env where
  "hb_timeout = \<lparr>send_ret = 2, hb_recv = recv_timeout\<rparr>"

definition hb_closed :: hb_env where
  "hb_closed = \<lparr>send_ret = 2, hb_recv = recv_closed\<rparr>"

definition hb_send_error :: hb_env where
  "hb_send_error = \<lparr>send_ret = - 1, hb_recv = recv_data\<rparr>"

definition connect_ok :: connect_env where
  "connect_ok = \<lparr>cli_socket_ret = 5, connect_ret = 0\<rparr>"

definition connect_refused :: connect_env where
  "connect_refused = \<lparr>cli_socket_ret = 5, connect_ret = - 1\<rparr>"

definition client_globals :: socket_globals where
  "client_globals = set_connection_lost_callback True initial_socket_globals"

section \<open>Properties of the socket addresses\<close>

lemma c_str_no_NUL: "NUL \<notin> set s \<Longrightarrow> c_str s = s"
  by (auto simp: c_str_def)

lemma snprintf_socket_path_fmt: "snprintf n socket_path_fmt args = []"
  by (simp add: snprintf_def socket_path_fmt_def c_str_def)

lemma store_socket_path_init:
  "store_socket_path g_socket_path_init name = Some g_socket_path_init"
  by (simp add: store_socket_path_def snprintf_socket_path_fmt write_buf_def g_socket_path_init_def
      g_socket_path_size_def)
     (simp add: replicate_Suc [symmetric] del: replicate_Suc)

lemma server_sockaddr_all_NUL:
  "strlen name < 108 \<Longrightarrow>
   map_option snd (server_sockaddr g_socket_path_init name) = Some (replicate (strlen name + 1) NUL)"
  by (simp add: server_sockaddr_def store_socket_path_init bind_sockaddr_def read_buf_def
      write_buf_def sun_path_size_def)
     (simp add: g_socket_path_init_def g_socket_path_size_def min_def)

lemma client_sockaddr_name:
  "strlen name \<le> 106 \<Longrightarrow> client_sockaddr name = Some (NUL # c_str name)"
  by (simp add: client_sockaddr_def write_buf_def sun_path_size_def strlen_def)

lemma c_str_hd: "c_str name = c # cs \<Longrightarrow> c \<noteq> NUL"
proof -
  assume "c_str name = c # cs"
  then have "c \<in> set (takeWhile (\<lambda>c. c \<noteq> NUL) name)"
    by (simp add: c_str_def)
  then show ?thesis
    by (auto dest: set_takeWhileD)
qed

lemma socket_addresses_differ:
  assumes "0 < strlen name" "strlen name \<le> 106"
  shows "map_option snd (server_sockaddr g_socket_path_init name) \<noteq> client_sockaddr name"
proof -
  from assms(1) obtain c cs where cs: "c_str name = c # cs"
    by (cases "c_str name") (auto simp: strlen_def)
  from c_str_hd [OF cs] have c: "c \<noteq> NUL" .
  have len: "strlen name + 1 = Suc (Suc (length cs))"
    using cs by (simp add: strlen_def)
  have "strlen name < 108"
    using assms(2) by simp
  from server_sockaddr_all_NUL [OF this]
  have srv: "map_option snd (server_sockaddr g_socket_path_init name) =
      Some (NUL # NUL # replicate (length cs) NUL)"
    by (simp only: len replicate_Suc)
  have cli: "client_sockaddr name = Some (NUL # c # cs)"
    using client_sockaddr_name [OF assms(2)] cs by simp
  show ?thesis
    unfolding srv cli using c by simp
qed

lemma c_str_wd_sock_1: "c_str ''wd_sock_1'' = ''wd_sock_1''"
  by (simp add: c_str_def NUL_def)

lemma client_sockaddr_wd_sock_1: "client_sockaddr ''wd_sock_1'' = Some (NUL # ''wd_sock_1'')"
  using client_sockaddr_name [of "''wd_sock_1''"] by (simp add: strlen_def c_str_wd_sock_1)

lemma server_sockaddr_wd_sock_1:
  "map_option snd (server_sockaddr g_socket_path_init ''wd_sock_1'') =
     Some [NUL, NUL, NUL, NUL, NUL, NUL, NUL, NUL, NUL, NUL]"
proof -
  have "strlen ''wd_sock_1'' + 1 = Suc (Suc (Suc (Suc (Suc (Suc (Suc (Suc (Suc (Suc 0)))))))))"
    by (simp add: strlen_def c_str_wd_sock_1)
  moreover have "strlen ''wd_sock_1'' < 108"
    by (simp add: strlen_def c_str_wd_sock_1)
  ultimately show ?thesis
    using server_sockaddr_all_NUL [of "''wd_sock_1''"] by simp
qed

text \<open>
  C1. For the socket name \<^verbatim>\<open>wd_sock_1\<close> the server binds the abstract address made of
  ten NUL bytes, because the format \<^verbatim>\<open>"\0%s"\<close> is the empty C string, while the client
  connects to NUL followed by the name: the two addresses differ.
\<close>

theorem socket_addresses_differ_wd_sock_1:
  "map_option snd (server_sockaddr g_socket_path_init ''wd_sock_1'') = Some [NUL, NUL, NUL, NUL, NUL, NUL, NUL, NUL, NUL, NUL]
   \<and> client_sockaddr ''wd_sock_1'' = Some (NUL # ''wd_sock_1'')
   \<and> map_option snd (server_sockaddr g_socket_path_init ''wd_sock_1'') \<noteq> client_sockaddr ''wd_sock_1''"
  by (simp add: server_sockaddr_wd_sock_1 client_sockaddr_wd_sock_1 NUL_def)

section \<open>Properties of the liveness prober\<close>

lemma proc_path_1234: "proc_path 1234 = ''/proc/1234''"
  by (simp add: proc_path_def snprintf_def c_str_def NUL_def show_int_def dec_digits.simps
      digit_char_def)

text \<open>
  C4. \<^verbatim>\<open>is_process_alive\<close> answers false for every non-positive pid and makes no system
  call then. For a positive pid it answers true exactly when \<^verbatim>\<open>stat\<close> on \<^verbatim>\<open>/proc/<pid>\<close>
  succeeds and reports a directory, or \<^verbatim>\<open>kill(pid, 0)\<close> returns 0; it calls \<^verbatim>\<open>stat\<close>
  first and \<^verbatim>\<open>kill\<close> only when the first check has failed.
\<close>

theorem is_process_alive_or:
  "(pid \<le> 0 \<longrightarrow> is_process_alive os pid = (False, []))
   \<and> (0 < pid \<longrightarrow>
        (fst (is_process_alive os pid) \<longleftrightarrow>
           (stat_ret os (proc_path pid) = 0 \<and> stat_isdir os (proc_path pid))
           \<or> kill_ret os pid 0 = 0)
        \<and> snd (is_process_alive os pid) =
            (if stat_ret os (proc_path pid) = 0 \<and> stat_isdir os (proc_path pid)
             then [Stat (proc_path pid)]
             else [Stat (proc_path pid), Kill pid 0]))"
  by (simp add: is_process_alive_def)

theorem is_process_alive_or_witness:
  "is_process_alive kill_only_env (- 5) = (False, [])
   \<and> fst (is_process_alive kill_only_env 1234)
   \<and> snd (is_process_alive kill_only_env 1234) = [Stat ''/proc/1234'', Kill 1234 0]"
  using is_process_alive_or [of "- 5" kill_only_env] is_process_alive_or [of 1234 kill_only_env]
  by (simp add: kill_only_env_def proc_path_1234)

section \<open>Properties of the reactivation round\<close>

lemma reactivation_round_am:
  "use_am_command cfg \<Longrightarrow>
   reactivation_round cfg os =
     (let c1 = startservice_cmd (package_name cfg) (service_name cfg);
          c2 = start_foreground_cmd (package_name cfg) (service_name cfg);
          c3 = broadcast_cmd (package_name cfg)
      in if system_ret os c1 = 0 then (True, [System c1])
         else if system_ret os c2 = 0 then (True, [System c1, System c2])
         else (system_ret os c3 = 0, [System c1, System c2, System c3]))"
  by (simp add: reactivation_round_def start_service_via_am_def start_via_broadcast_def Let_def)

lemma save_config_simps [simp]:
  "use_am_command (save_config pkg svc interval pid cfg)"
  "parent_pid (save_config pkg svc interval pid cfg) = pid"
  "check_interval_ms (save_config pkg svc interval pid cfg) = (if interval > 0 then interval else 3000)"
  by (simp_all add: save_config_def)

text \<open>
  C5. With the configuration that \<^verbatim>\<open>start_daemon\<close> stores, a reactivation round issues
  the plain activation command first; only when it returns non-zero, the
  foreground-service variant, once; only when that returns non-zero too, the broadcast.
  No command follows one that returned 0, and the round reports success exactly when
  the last command it issued returned 0.
\<close>

theorem reactivation_round_order:
  "reactivation_round (save_config pkg svc interval pid cfg0) os =
     (let cfg = save_config pkg svc interval pid cfg0;
          c1 = startservice_cmd (package_name cfg) (service_name cfg);
          c2 = start_foreground_cmd (package_name cfg) (service_name cfg);
          c3 = broadcast_cmd (package_name cfg)
      in if system_ret os c1 = 0 then (True, [System c1])
         else if system_ret os c2 = 0 then (True, [System c1, System c2])
         else (system_ret os c3 = 0, [System c1, System c2, System c3]))"
  using reactivation_round_am [of "save_config pkg svc interval pid cfg0" os]
  by (simp add: Let_def)

section \<open>Properties of the monitoring loop\<close>

lemma daemon_loop_not_running:
  "\<not> g_daemon_running g \<Longrightarrow>
   daemon_loop g c es = \<lparr>status = Finished FlagCleared, consecutive_failures = c, cycles = 0, calls = []\<rparr>"
  by (cases es) simp_all

lemma daemon_cycle_alive:
  "cycle_alive cfg os \<Longrightarrow> daemon_cycle cfg c os = (Continue, 0, snd (is_process_alive os (parent_pid cfg)))"
  by (cases "is_process_alive os (parent_pid cfg)") (simp add: cycle_alive_def daemon_cycle_def)

lemma daemon_cycle_fails:
  "cycle_fails cfg os \<Longrightarrow>
   daemon_cycle cfg c os =
     (if c + 1 \<ge> 3 then Break else Continue, c + 1,
      snd (is_process_alive os (parent_pid cfg)) @ snd (reactivation_round cfg os))"
  by (cases "is_process_alive os (parent_pid cfg)"; cases "reactivation_round cfg os")
     (simp add: cycle_fails_def daemon_cycle_def max_consecutive_failures_def Let_def)

lemma daemon_loop_InLoop_cycles:
  "status (daemon_loop g c pre) = InLoop \<Longrightarrow> cycles (daemon_loop g c pre) = length pre"
  by (induction pre arbitrary: c) (auto simp: Let_def split: if_splits prod.splits cycle_next.splits)

lemma daemon_loop_append:
  "status (daemon_loop g c pre) = InLoop \<Longrightarrow>
   daemon_loop g c (pre @ es) =
     (let r = daemon_loop g (consecutive_failures (daemon_loop g c pre)) es
      in r\<lparr>cycles := length pre + cycles r, calls := calls (daemon_loop g c pre) @ calls r\<rparr>)"
proof (induction pre arbitrary: c)
  case Nil
  then show ?case by (cases es) (auto split: if_splits)
next
  case (Cons os pre)
  then show ?case
    by (auto simp: Let_def split: if_splits prod.splits cycle_next.splits)
qed

lemma cycle_fails_dead_env: "0 < parent_pid cfg \<Longrightarrow> cycle_fails cfg dead_env"
  by (simp add: cycle_fails_def dead_env_def is_process_alive_def reactivation_round_def
      start_service_via_am_def start_via_broadcast_def Let_def)

lemma cycle_alive_alive_env: "0 < parent_pid cfg \<Longrightarrow> cycle_alive cfg alive_env"
  by (simp add: cycle_alive_def alive_env_def is_process_alive_def)

lemma daemon_loop_InLoop_running: "status (daemon_loop g c es) = InLoop \<Longrightarrow> g_daemon_running g"
  by (cases es) (auto split: if_splits)

lemma child_globals_simps [simp]:
  "g_daemon_running child_globals" "parent_pid (g_config child_globals) = 1234"
  by (simp_all add: child_globals_def)

text \<open>
  C2. The maximum is the constant 3. After any history that leaves the loop running with
  the counter at zero, three consecutive cycles in which the prober answers false and the
  reactivation round fails make the loop exit, in the third of them and whatever would
  follow: with fewer (none, one or two) the loop is still running, the counter at the
  number of failed cycles. A cycle in which the prober answers true continues the loop
  and sets the counter to zero, whatever it was.
\<close>

theorem daemon_main_loop_bounded_retry:
  assumes pre: "status (daemon_main_loop g pre) = InLoop"
    and zero: "consecutive_failures (daemon_main_loop g pre) = 0"
    and len: "length fs = 3"
    and fails: "\<forall>os \<in> set fs. cycle_fails (g_config g) os"
  shows "status (daemon_main_loop g (pre @ fs @ rest)) = Finished GaveUp
     \<and> cycles (daemon_main_loop g (pre @ fs @ rest)) = length pre + 3
     \<and> consecutive_failures (daemon_main_loop g (pre @ fs @ rest)) = 3
     \<and> (\<forall>k<3. status (daemon_main_loop g (pre @ take k fs)) = InLoop
            \<and> consecutive_failures (daemon_main_loop g (pre @ take k fs)) = int k)
     \<and> (\<forall>c os. cycle_alive (g_config g) os \<longrightarrow>
            fst (daemon_cycle (g_config g) c os) = Continue
            \<and> fst (snd (daemon_cycle (g_config g) c os)) = 0)"
proof -
  from len obtain a b c where fs: "fs = [a, b, c]"
    by (auto simp: numeral_3_eq_3 length_Suc_conv)
  have run: "g_daemon_running g"
    using pre daemon_loop_InLoop_running by (simp add: daemon_main_loop_def)
  have fa: "cycle_fails (g_config g) a" and fb: "cycle_fails (g_config g) b"
    and fc: "cycle_fails (g_config g) c"
    using fails fs by simp_all
  have pre': "status (daemon_loop g 0 pre) = InLoop"
    and zero': "consecutive_failures (daemon_loop g 0 pre) = 0"
    using pre zero by (simp_all add: daemon_main_loop_def)
  have app: "daemon_loop g 0 (pre @ es) =
      (let r = daemon_loop g 0 es
       in r\<lparr>cycles := length pre + cycles r, calls := calls (daemon_loop g 0 pre) @ calls r\<rparr>)" for es
    using daemon_loop_append [OF pre', of es] zero' by simp
  have full: "status (daemon_loop g 0 ([a, b, c] @ rest)) = Finished GaveUp
      \<and> cycles (daemon_loop g 0 ([a, b, c] @ rest)) = 3
      \<and> consecutive_failures (daemon_loop g 0 ([a, b, c] @ rest)) = 3"
    using run fa fb fc by (simp add: daemon_cycle_fails Let_def)
  have k0: "status (daemon_loop g 0 []) = InLoop \<and> consecutive_failures (daemon_loop g 0 []) = 0"
    using run by simp
  have k1: "status (daemon_loop g 0 [a]) = InLoop \<and> consecutive_failures (daemon_loop g 0 [a]) = 1"
    using run fa by (simp add: daemon_cycle_fails Let_def)
  have k2: "status (daemon_loop g 0 [a, b]) = InLoop \<and> consecutive_failures (daemon_loop g 0 [a, b]) = 2"
    using run fa fb by (simp add: daemon_cycle_fails Let_def)
  have ks: "status (daemon_loop g 0 (take k [a, b, c])) = InLoop
      \<and> consecutive_failures (daemon_loop g 0 (take k [a, b, c])) = int k" if "k < 3" for k
  proof -
    from that consider "k = 0" | "k = 1" | "k = 2" by linarith
    then show ?thesis
    proof cases
      case 1 then show ?thesis using k0 by simp
    next
      case 2 then show ?thesis using k1 by simp
    next
      case 3 then show ?thesis using k2 by (simp add: numeral_2_eq_2)
    qed
  qed
  have reset: "fst (daemon_cycle (g_config g) n os) = Continue
      \<and> fst (snd (daemon_cycle (g_config g) n os)) = 0" if "cycle_alive (g_config g) os" for n os
    using that by (simp add: daemon_cycle_alive)
  show ?thesis
    using full ks reset by (simp add: daemon_main_loop_def fs app Let_def)
qed

theorem daemon_main_loop_bounded_retry_witness:
  "status (daemon_main_loop child_globals ([alive_env] @ [dead_env, dead_env, dead_env] @ [dead_env]))
     = Finished GaveUp
   \<and> cycles (daemon_main_loop child_globals ([alive_env] @ [dead_env, dead_env, dead_env] @ [dead_env]))
     = 4
   \<and> status (daemon_main_loop child_globals ([alive_env] @ take 2 [dead_env, dead_env, dead_env]))
     = InLoop
   \<and> fst (snd (daemon_cycle (g_config child_globals) 2 alive_env)) = 0"
proof -
  have alive: "cycle_alive (g_config child_globals) alive_env"
    by (simp add: cycle_alive_alive_env)
  have pre: "status (daemon_main_loop child_globals [alive_env]) = InLoop"
    and zero: "consecutive_failures (daemon_main_loop child_globals [alive_env]) = 0"
    using alive by (simp_all add: daemon_main_loop_def daemon_cycle_alive)
  have len: "length [dead_env, dead_env, dead_env] = 3" by simp
  have fails: "\<forall>os \<in> set [dead_env, dead_env, dead_env]. cycle_fails (g_config child_globals) os"
    by (simp add: cycle_fails_dead_env)
  note main = daemon_main_loop_bounded_retry [OF pre zero len fails, of "[dead_env]"]
  from main have "\<forall>k<3. status (daemon_main_loop child_globals
      ([alive_env] @ take k [dead_env, dead_env, dead_env])) = InLoop"
    by blast
  then have two: "status (daemon_main_loop child_globals
      ([alive_env] @ take 2 [dead_env, dead_env, dead_env])) = InLoop"
    by (rule allE [of _ 2]) simp
  from main alive have reset: "fst (snd (daemon_cycle (g_config child_globals) 2 alive_env)) = 0"
    by blast
  from main two reset show ?thesis by simp
qed








section \<open>Properties of start\_daemon\<close>

lemma caller_state_not_running: "caller_state g \<Longrightarrow> \<not> g_daemon_running g"
  by (induction rule: caller_state.induct)
     (auto simp: initial_globals_def start_daemon_def stop_daemon_def Let_def
           split: if_splits loop_status.splits)

lemma start_daemon_guard:
  "g_daemon_running g \<Longrightarrow> start_daemon pkg svc interval env g = (Returned 0, g, [])"
  by (simp add: start_daemon_def)

lemma start_daemon_parent:
  "\<not> g_daemon_running g \<Longrightarrow> 0 < fork_ret env \<Longrightarrow>
   start_daemon pkg svc interval env g =
     (Returned 0, g\<lparr>g_config := save_config pkg svc interval (getpid_ret env) (g_config g)\<rparr>,
      [Getpid, Fork])"
  by (simp add: start_daemon_def Let_def)

text \<open>
  C8. \<^verbatim>\<open>start_daemon\<close> sets the running flag in the forked child only. In the calling
  process the flag is still false after a successful start, so a second call passes the
  guard and forks again: both calls return 0 and both fork.
\<close>

theorem start_daemon_twice_forks_twice:
  "fst (start_daemon ''com.app'' ''com.app.KeepService'' 1000 (parent_env 2001) initial_globals)
     = Returned 0
   \<and> snd (snd (start_daemon ''com.app'' ''com.app.KeepService'' 1000 (parent_env 2001) initial_globals))
     = [Getpid, Fork]
   \<and> \<not> is_daemon_running
       (fst (snd (start_daemon ''com.app'' ''com.app.KeepService'' 1000 (parent_env 2001) initial_globals)))
   \<and> fst (start_daemon ''com.app'' ''com.app.KeepService'' 1000 (parent_env 2002)
       (fst (snd (start_daemon ''com.app'' ''com.app.KeepService'' 1000 (parent_env 2001) initial_globals))))
     = Returned 0
   \<and> snd (snd (start_daemon ''com.app'' ''com.app.KeepService'' 1000 (parent_env 2002)
       (fst (snd (start_daemon ''com.app'' ''com.app.KeepService'' 1000 (parent_env 2001) initial_globals)))))
     = [Getpid, Fork]"
  by (simp add: start_daemon_parent parent_env_def initial_globals_def is_daemon_running_def)

text \<open>
  C10. For every call of \<^verbatim>\<open>start_daemon\<close> from a state the calling process can be in,
  the poll interval stored in \<^verbatim>\<open>g_config\<close> is 3000 when the argument is not positive, and
  the argument itself when it is positive.
\<close>

theorem start_daemon_stores_interval:
  "caller_state g \<Longrightarrow>
   (interval \<le> 0 \<longrightarrow>
      check_interval_ms (g_config (fst (snd (start_daemon pkg svc interval env g)))) = 3000)
   \<and> (0 < interval \<longrightarrow>
      check_interval_ms (g_config (fst (snd (start_daemon pkg svc interval env g)))) = interval)"
  using caller_state_not_running [of g]
  by (auto simp: start_daemon_def Let_def)

theorem start_daemon_stores_interval_witness:
  "check_interval_ms (g_config (fst (snd
      (start_daemon ''com.app'' ''com.app.KeepService'' (- 7) (parent_env 2001) initial_globals)))) = 3000
   \<and> check_interval_ms (g_config (fst (snd
      (start_daemon ''com.app'' ''com.app.KeepService'' 0 (parent_env 2001) initial_globals)))) = 3000
   \<and> check_interval_ms (g_config (fst (snd
      (start_daemon ''com.app'' ''com.app.KeepService'' 1500 (parent_env 2001) initial_globals)))) = 1500"
  using start_daemon_stores_interval [OF caller_state.initial, of "- 7" "''com.app''" "''com.app.KeepService''" "parent_env 2001"]
    start_daemon_stores_interval [OF caller_state.initial, of 0 "''com.app''" "''com.app.KeepService''" "parent_env 2001"]
    start_daemon_stores_interval [OF caller_state.initial, of 1500 "''com.app''" "''com.app.KeepService''" "parent_env 2001"]
  by simp

section \<open>Properties of the heartbeat server\<close>

lemma start_socket_server_thread_running:
  "g_socket_running g \<Longrightarrow> start_socket_server_thread env name g = Some (True, g, [])"
  by (simp add: start_socket_server_thread_def)

lemma start_socket_server_thread_twice:
  "start_socket_server_thread env name g = Some (True, g1, l) \<Longrightarrow>
   start_socket_server_thread env' name' g1 = Some (True, g1, [])"
  by (auto simp: start_socket_server_thread_def Let_def split: if_splits option.splits prod.splits)

lemma receive_with_timeout_cases:
  "0 \<le> fd \<Longrightarrow> 0 < n \<Longrightarrow>
   receive_with_timeout e fd n t =
     (if select_ret e < 0 then - 1 else if select_ret e = 0 then 0
      else if recv_ret e \<le> 0 then - 1 else recv_ret e)"
  by (simp add: receive_with_timeout_def)

lemma peer_loop_timeout:
  "receive_with_timeout e fd 64 5000 = 0 \<Longrightarrow> peer_loop g fd (e # es) = peer_loop g fd es"
  by (cases es) (simp_all add: Let_def)

lemma peer_loop_lost:
  "g_socket_running g \<Longrightarrow> \<forall>x \<in> set pre. 0 \<le> receive_with_timeout x fd 64 5000 \<Longrightarrow>
   receive_with_timeout e fd 64 5000 < 0 \<Longrightarrow>
   peer_loop g fd (pre @ e # rest) = (True, acks fd pre)"
  by (induction pre) (auto simp: acks_def Let_def)

lemma socket_server_thread_running:
  "g_socket_running g \<Longrightarrow> 0 \<le> g_server_socket g \<Longrightarrow> fst (socket_server_thread g as) \<noteq> ThreadExited"
  by (induction as) (auto simp: Let_def split: prod.splits bool.splits)

lemma server_globals_simps [simp]:
  "g_socket_running server_globals" "g_server_socket server_globals = 3"
  by (simp_all add: server_globals_def)

lemma recv_simps [simp]:
  "receive_with_timeout recv_timeout 7 64 5000 = 0"
  "receive_with_timeout recv_data 7 64 5000 = 2"
  "receive_with_timeout recv_closed 7 64 5000 = - 1"
  by (simp_all add: receive_with_timeout_def recv_timeout_def recv_data_def recv_closed_def)

text \<open>
  C6, as the code has it. In the per-peer receive loop of a running server, when a
  receive reports a zero-length read (the peer closed) or an error, after any number of
  receives that brought data or timed out, \<^verbatim>\<open>receive_with_timeout\<close> is \<open>-1\<close>, the loop is
  left, the peer socket is closed and the thread goes back to the accept loop: it has not
  exited. A receive that times out (\<^verbatim>\<open>select\<close> is 0) yields 0 and the loop goes on
  receiving from the same peer.
\<close>

theorem server_peer_lost:
  assumes run: "g_socket_running g" "0 \<le> g_server_socket g"
    and acc: "0 < accept_select_ret a" "0 \<le> accept_ret a"
    and tr: "peer a = pre @ e # rest"
    and pre: "\<forall>x \<in> set pre. 0 \<le> receive_with_timeout x (accept_ret a) 64 5000"
    and lost: "0 < select_ret e \<and> recv_ret e \<le> 0 \<or> select_ret e < 0"
  shows "receive_with_timeout e (accept_ret a) 64 5000 = - 1
     \<and> socket_server_thread g (a # as) =
         (fst (socket_server_thread g as),
          EvAccept (accept_ret a) # acks (accept_ret a) pre
            @ EvClose (accept_ret a) # snd (socket_server_thread g as))
     \<and> fst (socket_server_thread g as) \<noteq> ThreadExited
     \<and> (\<forall>x xs. select_ret x = 0 \<longrightarrow>
           receive_with_timeout x (accept_ret a) 64 5000 = 0
           \<and> peer_loop g (accept_ret a) (x # xs) = peer_loop g (accept_ret a) xs)"
proof -
  have r: "receive_with_timeout e (accept_ret a) 64 5000 = - 1"
    using lost acc by (auto simp: receive_with_timeout_def)
  have pl: "peer_loop g (accept_ret a) (peer a) = (True, acks (accept_ret a) pre)"
    using peer_loop_lost [OF run(1) pre, of e rest] r tr by simp
  have th: "socket_server_thread g (a # as) =
         (fst (socket_server_thread g as),
          EvAccept (accept_ret a) # acks (accept_ret a) pre
            @ EvClose (accept_ret a) # snd (socket_server_thread g as))"
    using run acc pl by (simp add: Let_def split: prod.splits)
  have alive: "fst (socket_server_thread g as) \<noteq> ThreadExited"
    using run by (rule socket_server_thread_running)
  have to: "receive_with_timeout x (accept_ret a) 64 5000 = 0
           \<and> peer_loop g (accept_ret a) (x # xs) = peer_loop g (accept_ret a) xs"
    if "select_ret x = 0" for x xs
  proof -
    have z: "receive_with_timeout x (accept_ret a) 64 5000 = 0"
      using that acc by (simp add: receive_with_timeout_def)
    with peer_loop_timeout show ?thesis by simp
  qed
  from r th alive to show ?thesis by blast
qed

theorem server_peer_lost_witness:
  "socket_server_thread server_globals [one_peer [recv_data, recv_timeout, recv_closed, recv_data]] =
     (Accepting, [EvAccept 7, EvSend 7 ''OK'', EvClose 7])
   \<and> peer_loop server_globals 7 [recv_timeout, recv_data] = peer_loop server_globals 7 [recv_data]"
proof -
  have acc: "0 < accept_select_ret (one_peer [recv_data, recv_timeout, recv_closed, recv_data])"
      "0 \<le> accept_ret (one_peer [recv_data, recv_timeout, recv_closed, recv_data])"
    by (simp_all add: one_peer_def)
  have tr: "peer (one_peer [recv_data, recv_timeout, recv_closed, recv_data]) =
      [recv_data, recv_timeout] @ recv_closed # [recv_data]"
    by (simp add: one_peer_def)
  have pre: "\<forall>x \<in> set [recv_data, recv_timeout]. 0 \<le> receive_with_timeout x
      (accept_ret (one_peer [recv_data, recv_timeout, recv_closed, recv_data])) 64 5000"
    by (simp add: one_peer_def)
  have lost: "0 < select_ret recv_closed \<and> recv_ret recv_closed \<le> 0 \<or> select_ret recv_closed < 0"
    by (simp add: recv_closed_def)
  have run: "g_socket_running server_globals" "0 \<le> g_server_socket server_globals" by simp_all
  note main = server_peer_lost [OF run acc tr pre lost, of "[]"]
  have sel: "select_ret recv_timeout = 0" by (simp add: recv_timeout_def)
  from main sel have "peer_loop server_globals 7 (recv_timeout # [recv_data]) = peer_loop server_globals 7 [recv_data]"
    by (simp add: one_peer_def)
  with main show ?thesis
    by (simp add: one_peer_def acks_def HEARTBEAT_ACK_def)
qed

text \<open>
  The claim C6 as stated fails for the timeout: after a receive that timed out the
  server is still serving the same peer, acknowledges its next heartbeat and has not
  closed the peer socket.
\<close>

theorem server_timeout_counterexample:
  "socket_server_thread server_globals [one_peer [recv_timeout, recv_data]] =
     (Serving 7, [EvAccept 7, EvSend 7 ''OK''])
   \<and> EvClose 7 \<notin> set (snd (socket_server_thread server_globals [one_peer [recv_timeout, recv_data]]))"
  by (simp add: one_peer_def Let_def HEARTBEAT_ACK_def)

section \<open>Properties of the heartbeat client\<close>

lemma connect_socket_server_fd:
  "connect_socket_server env name g = Some (fd, g1, l) \<Longrightarrow>
   (fd < 0 \<or> g_client_socket g1 = fd)
   \<and> g_connection_lost_callback g1 = g_connection_lost_callback g"
  by (auto simp: connect_socket_server_def Let_def split: option.splits if_splits)

lemma heartbeat_loop_left:
  "0 \<le> g_client_socket g \<Longrightarrow>
   fst (heartbeat_loop g ms trace) \<longleftrightarrow> (\<exists>e \<in> set trace. hb_iteration_fails g ms e)"
  by (induction trace)
     (auto simp: hb_iteration_fails_def send_heartbeat_def Let_def split: prod.splits bool.splits if_splits)

lemma heartbeat_loop_failure:
  "0 \<le> g_client_socket g \<Longrightarrow> \<forall>x \<in> set pre. \<not> hb_iteration_fails g ms x \<Longrightarrow>
   hb_iteration_fails g ms e \<Longrightarrow>
   heartbeat_loop g ms (pre @ e # rest) =
     (True, replicate (Suc (length pre)) (EvSend (g_client_socket g) HEARTBEAT_MSG) @ lost_callback g)"
  by (induction pre)
     (auto simp: hb_iteration_fails_def send_heartbeat_def Let_def split: prod.splits bool.splits if_splits)

lemma heartbeat_loop_timeout:
  "0 \<le> g_client_socket g \<Longrightarrow> 0 < send_ret e \<Longrightarrow> select_ret (hb_recv e) = 0 \<Longrightarrow>
   heartbeat_loop g ms (e # es) =
     (fst (heartbeat_loop g ms es),
      EvSend (g_client_socket g) HEARTBEAT_MSG # snd (heartbeat_loop g ms es))"
  by (simp add: send_heartbeat_def receive_with_timeout_def Let_def split: prod.splits)

lemma connect_ok_wd_sock_1:
  "connect_socket_server connect_ok (Some ''wd_sock_1'') client_globals =
     Some (5, client_globals\<lparr>g_client_socket := 5\<rparr>, [EvSocket, EvConnect (NUL # ''wd_sock_1'')])"
  by (simp add: connect_socket_server_def connect_ok_def client_sockaddr_wd_sock_1 Let_def)
     (simp add: strlen_def c_str_def NUL_def)

lemma client_globals_callback [simp]: "g_connection_lost_callback client_globals"
  by (simp add: client_globals_def set_connection_lost_callback_def)

lemma hb_fails_simps [simp]:
  "\<not> hb_iteration_fails (client_globals\<lparr>g_client_socket := 5\<rparr>) ms hb_ok"
  "\<not> hb_iteration_fails (client_globals\<lparr>g_client_socket := 5\<rparr>) ms hb_timeout"
  "hb_iteration_fails (client_globals\<lparr>g_client_socket := 5\<rparr>) ms hb_closed"
  "hb_iteration_fails (client_globals\<lparr>g_client_socket := 5\<rparr>) ms hb_send_error"
  by (simp_all add: hb_iteration_fails_def receive_with_timeout_def hb_ok_def hb_timeout_def
      hb_closed_def hb_send_error_def recv_data_def recv_timeout_def recv_closed_def)

lemma connect_refused_wd_sock_1:
  "connect_socket_server connect_refused (Some ''wd_sock_1'') client_globals =
     Some (- 1, client_globals\<lparr>g_client_socket := - 1\<rparr>,
           [EvSocket, EvConnect (NUL # ''wd_sock_1''), EvClose 5])"
  by (simp add: connect_socket_server_def connect_refused_def client_sockaddr_wd_sock_1 Let_def)
     (simp add: strlen_def c_str_def NUL_def)

text \<open>
  C7, as the code has it. After a successful connect, at the first iteration of the loop
  in which the send fails, or the receive reports an error or the orderly close by the
  peer, \<^verbatim>\<open>start_heartbeat_client\<close> returns: it has sent one heartbeat per iteration, then
  called the callback once when one is registered and not at all otherwise, and has made
  no further \<^verbatim>\<open>socket\<close> or \<^verbatim>\<open>connect\<close> call. An iteration whose send succeeds and whose
  receive times out is not a failing one.
\<close>

theorem heartbeat_client_failure:
  assumes conn: "connect_socket_server env name g = Some (fd, g1, l)" "0 \<le> fd"
    and pre: "\<forall>x \<in> set pre. \<not> hb_iteration_fails g1 ms x"
    and fails: "send_ret e \<le> 0 \<or> 0 < select_ret (hb_recv e) \<and> recv_ret (hb_recv e) \<le> 0
                \<or> select_ret (hb_recv e) < 0"
  shows "start_heartbeat_client env (pre @ e # rest) name ms g =
       Some (Returns True, g1,
             l @ replicate (Suc (length pre)) (EvSend fd HEARTBEAT_MSG)
               @ (if g_connection_lost_callback g then [EvCallback] else []))
     \<and> (\<forall>x. 0 < send_ret x \<and> select_ret (hb_recv x) = 0 \<longrightarrow> \<not> hb_iteration_fails g1 ms x)"
proof -
  from connect_socket_server_fd [OF conn(1)] conn(2)
  have fd: "g_client_socket g1 = fd" and cb: "g_connection_lost_callback g1 = g_connection_lost_callback g"
    by auto
  have f: "hb_iteration_fails g1 ms e"
    using fails fd conn(2) by (auto simp: hb_iteration_fails_def receive_with_timeout_def)
  have loop: "heartbeat_loop g1 ms (pre @ e # rest) =
     (True, replicate (Suc (length pre)) (EvSend fd HEARTBEAT_MSG) @ lost_callback g1)"
    using heartbeat_loop_failure [of g1 pre ms e rest] pre f fd conn(2) by simp
  have a: "start_heartbeat_client env (pre @ e # rest) name ms g =
       Some (Returns True, g1,
             l @ replicate (Suc (length pre)) (EvSend fd HEARTBEAT_MSG)
               @ (if g_connection_lost_callback g then [EvCallback] else []))"
    using conn loop cb by (simp add: start_heartbeat_client_def lost_callback_def)
  have b: "\<not> hb_iteration_fails g1 ms x" if "0 < send_ret x \<and> select_ret (hb_recv x) = 0" for x
    using that fd conn(2) by (simp add: hb_iteration_fails_def receive_with_timeout_def)
  from a b show ?thesis by blast
qed

theorem heartbeat_client_failure_witness:
  "start_heartbeat_client connect_ok ([hb_ok, hb_timeout] @ hb_closed # [hb_ok]) (Some ''wd_sock_1'')
       1000 client_globals =
     Some (Returns True, client_globals\<lparr>g_client_socket := 5\<rparr>,
           [EvSocket, EvConnect (NUL # ''wd_sock_1''),
            EvSend 5 ''HB'', EvSend 5 ''HB'', EvSend 5 ''HB'', EvCallback])
   \<and> \<not> hb_iteration_fails (client_globals\<lparr>g_client_socket := 5\<rparr>) 1000 hb_timeout"
proof -
  have pre: "\<forall>x \<in> set [hb_ok, hb_timeout]. \<not> hb_iteration_fails (client_globals\<lparr>g_client_socket := 5\<rparr>) 1000 x"
    by simp
  have fails: "send_ret hb_closed \<le> 0 \<or> 0 < select_ret (hb_recv hb_closed) \<and> recv_ret (hb_recv hb_closed) \<le> 0
                \<or> select_ret (hb_recv hb_closed) < 0"
    by (simp add: hb_closed_def recv_closed_def)
  have fd: "(0::int) \<le> 5" by simp
  note main = heartbeat_client_failure [OF connect_ok_wd_sock_1 fd pre fails, of "[hb_ok]"]
  have t: "0 < send_ret hb_timeout \<and> select_ret (hb_recv hb_timeout) = 0"
    by (simp add: hb_timeout_def recv_timeout_def)
  from main t have "\<not> hb_iteration_fails (client_globals\<lparr>g_client_socket := 5\<rparr>) 1000 hb_timeout"
    by blast
  with main show ?thesis
    by (simp add: HEARTBEAT_MSG_def numeral_2_eq_2)
qed

text \<open>
  The claim C7 as stated fails for the timeout: with a callback registered, after an
  iteration whose receive timed out the callback has not been called and the loop has
  sent the next heartbeat and is still running.
\<close>

theorem heartbeat_timeout_counterexample:
  "start_heartbeat_client connect_ok [hb_timeout, hb_ok] (Some ''wd_sock_1'') 1000 client_globals =
     Some (StillLooping, client_globals\<lparr>g_client_socket := 5\<rparr>,
           [EvSocket, EvConnect (NUL # ''wd_sock_1''), EvSend 5 ''HB'', EvSend 5 ''HB''])"
  by (simp add: start_heartbeat_client_def connect_ok_wd_sock_1 send_heartbeat_def Let_def
      hb_timeout_def hb_ok_def recv_timeout_def recv_data_def receive_with_timeout_def
      HEARTBEAT_MSG_def)

text \<open>
  C9. When the connection attempt is defined, \<^verbatim>\<open>start_heartbeat_client\<close> returns false
  exactly when \<^verbatim>\<open>connect_socket_server\<close> returned a negative value. When the connection
  succeeded it returns true as soon as an iteration fails (a send that failed, a receive
  that reported an error or a closed connection), and it has not returned while no
  iteration has failed.
\<close>

theorem start_heartbeat_client_return:
  assumes conn: "connect_socket_server env name g = Some (fd, g1, l)"
  shows "map_option fst (start_heartbeat_client env trace name ms g) =
       Some (if fd < 0 then Returns False
             else if \<exists>e \<in> set trace. hb_iteration_fails g1 ms e then Returns True
             else StillLooping)"
proof (cases "fd < 0")
  case True
  with conn show ?thesis by (simp add: start_heartbeat_client_def)
next
  case False
  with connect_socket_server_fd [OF conn] have fd: "0 \<le> g_client_socket g1" by auto
  obtain lf l' where hl: "heartbeat_loop g1 ms trace = (lf, l')"
    by (cases "heartbeat_loop g1 ms trace") auto
  with heartbeat_loop_left [OF fd, of ms trace]
  have "lf \<longleftrightarrow> (\<exists>e \<in> set trace. hb_iteration_fails g1 ms e)" by simp
  with conn False hl show ?thesis
    by (cases lf) (auto simp: start_heartbeat_client_def)
qed

theorem start_heartbeat_client_return_witness:
  "map_option fst (start_heartbeat_client connect_refused [hb_ok] (Some ''wd_sock_1'') 1000 client_globals)
     = Some (Returns False)
   \<and> map_option fst (start_heartbeat_client connect_ok [hb_ok, hb_send_error] (Some ''wd_sock_1'') 1000
        client_globals) = Some (Returns True)
   \<and> map_option fst (start_heartbeat_client connect_ok [hb_ok, hb_closed] (Some ''wd_sock_1'') 1000
        client_globals) = Some (Returns True)
   \<and> map_option fst (start_heartbeat_client connect_ok [hb_ok, hb_timeout] (Some ''wd_sock_1'') 1000
        client_globals) = Some StillLooping"
  using start_heartbeat_client_return [OF connect_refused_wd_sock_1, of "[hb_ok]" 1000]
    start_heartbeat_client_return [OF connect_ok_wd_sock_1, of "[hb_ok, hb_send_error]" 1000]
    start_heartbeat_client_return [OF connect_ok_wd_sock_1, of "[hb_ok, hb_closed]" 1000]
    start_heartbeat_client_return [OF connect_ok_wd_sock_1, of "[hb_ok, hb_timeout]" 1000]
  by simp

end
